theory Spec2Isabelle
  imports
    Complex_Main
    "HOL-Library.Sublist"
    "HOL-Library.Multiset"
    "HOL-Library.Char_ord"
    "HOL-Library.List_Lexorder"
begin

section \<open>The IMDB movie finder (movieapp.py)\<close>

text \<open>
  The program is a pandas/streamlit script. A data frame is modelled as the list of its
  rows, in index order; a column is the list of one field over the rows. A cell that
  pandas holds as NaN is \<open>None\<close>. Strings are lists of characters with code points
  below 256. A rating is a float64 number in the program and a rational here: that is
  exact for comparing two ratings, and it is all the model does with them. Arithmetic
  on float64 numbers, that is the two averages of the summary, is left out.
\<close>

subsection \<open>Rows\<close>

text \<open>A row of \<^verbatim>\<open>imdb_top_1000.csv\<close>, as \<^verbatim>\<open>pd.read_csv\<close> returns it.\<close>

record raw_row =
  Series_Title :: string
  Released_Year :: int
  Runtime :: "string option"
  Genre :: "string option"
  IMDB_Rating :: rat

text \<open>A row of the frame \<^verbatim>\<open>load_data\<close> returns: the two derived columns are added.\<close>

record movie =
  Title :: string
  Year :: int
  Runtime_Text :: "string option"
  Genre_Text :: "string option"
  Rating :: rat
  Runtime_Minutes :: "int option"
  Decade :: int

subsection \<open>\<^verbatim>\<open>load_data\<close>\<close>

definition is_digit :: "char \<Rightarrow> bool" where
  "is_digit c = (c \<in> set ''0123456789'')"

definition digit_val :: "char \<Rightarrow> int" where
  "digit_val c = int (of_char c) - 48"

text \<open>
  \<^verbatim>\<open>.str.extract('(\d+)')\<close>: the first match of the pattern, that is the leftmost
  maximal run of digits; NaN when the cell is NaN or holds no digit.
\<close>

definition str_extract_digits :: "string option \<Rightarrow> string option" where
  "str_extract_digits cell =
     (case cell of
        None \<Rightarrow> None
      | Some s \<Rightarrow>
          (let t = dropWhile (\<lambda>c. \<not> is_digit c) s
           in if t = [] then None else Some (takeWhile is_digit t)))"

definition int_of_digits :: "string \<Rightarrow> int" where
  "int_of_digits ds = foldl (\<lambda>n c. 10 * n + digit_val c) 0 ds"

text \<open>
  \<^verbatim>\<open>.astype(int)\<close> on one cell: NaN cannot be cast and raises, and so does a value
  beyond the 64-bit integer the column is made of. \<open>None\<close> is the raise.
\<close>

definition astype_int :: "string option \<Rightarrow> int option" where
  "astype_int cell =
     (case cell of
        None \<Rightarrow> None
      | Some ds \<Rightarrow> if int_of_digits ds < 2 ^ 63 then Some (int_of_digits ds) else None)"

definition runtime_minutes_of :: "raw_row \<Rightarrow> int option" where
  "runtime_minutes_of r = astype_int (str_extract_digits (Runtime r))"

definition decade_of :: "int \<Rightarrow> int" where
  "decade_of y = (y div 10) * 10"

fun split_comma :: "string \<Rightarrow> string list" where
  "split_comma [] = [[]]"
| "split_comma (c # cs) =
     (if c = CHR '','' then [] # split_comma cs
      else (case split_comma cs of
              [] \<Rightarrow> [[c]]
            | t # ts \<Rightarrow> (c # t) # ts))"

text \<open>The characters below 256 that \<^verbatim>\<open>str.strip()\<close> removes.\<close>

definition is_space :: "char \<Rightarrow> bool" where
  "is_space c = (c \<in> set [CHR '' '', CHR 0x09, CHR 0x0A, CHR 0x0B, CHR 0x0C, CHR 0x0D,
                            CHR 0x1C, CHR 0x1D, CHR 0x1E, CHR 0x1F, CHR 0x85, CHR 0xA0])"

definition strip :: "string \<Rightarrow> string" where
  "strip s = rev (dropWhile is_space (rev (dropWhile is_space s)))"

text \<open>\<^verbatim>\<open>[g.strip() for g in genres_str.split(',')]\<close>\<close>

definition genres_of :: "string \<Rightarrow> string list" where
  "genres_of genres_str = map strip (split_comma genres_str)"

text \<open>The loop over \<^verbatim>\<open>df['Genre'].dropna()\<close>, then \<^verbatim>\<open>sorted(list(all_genres))\<close>.\<close>

definition all_genres :: "raw_row list \<Rightarrow> string list" where
  "all_genres rows =
     sort (remdups (concat (map (\<lambda>r. case Genre r of None \<Rightarrow> [] | Some s \<Rightarrow> genres_of s) rows)))"

definition with_derived :: "raw_row \<Rightarrow> int \<Rightarrow> movie" where
  "with_derived r n =
     \<lparr>Title = Series_Title r, Year = Released_Year r, Runtime_Text = Runtime r,
      Genre_Text = Genre r, Rating = IMDB_Rating r,
      Runtime_Minutes = Some n, Decade = decade_of (Released_Year r)\<rparr>"

text \<open>
  The whole body is inside one \<^verbatim>\<open>try\<close>: any raise gives
  \<^verbatim>\<open>return None, None\<close>, here \<open>None\<close>. The source is \<open>None\<close> for every raise
  that comes before the runtime cast or does not depend on the cells of a well-typed
  table: \<^verbatim>\<open>read_csv\<close> raises, a column the function reads is missing, the
  \<^verbatim>\<open>Runtime\<close> column is not text (\<^verbatim>\<open>.str\<close> raises), or the \<^verbatim>\<open>Released_Year\<close>
  column is not numeric (\<^verbatim>\<open>//\<close> raises). A source \<open>Some rows\<close> is a table whose
  cells have the types of \<open>raw_row\<close>. The runtime column is computed as a whole
  before it is assigned, so one cell that cannot be cast fails the load.
\<close>

definition load_data :: "raw_row list option \<Rightarrow> (movie list \<times> string list) option" where
  "load_data source =
     (case source of
        None \<Rightarrow> None
      | Some rows \<Rightarrow>
          (case those (map runtime_minutes_of rows) of
             None \<Rightarrow> None
           | Some col \<Rightarrow>
               Some (map (\<lambda>(r, n). with_derived r n) (zip rows col), all_genres rows)))"

subsection \<open>\<^verbatim>\<open>filter_movies\<close>\<close>

text \<open>
  \<^verbatim>\<open>any(genre in str(x) for genre in selected_genres) if pd.notna(x) else False\<close>:
  \<^verbatim>\<open>in\<close> on two strings is substring containment.
\<close>

definition genre_mask :: "string list \<Rightarrow> movie \<Rightarrow> bool" where
  "genre_mask selected_genres m =
     (case Genre_Text m of
        None \<Rightarrow> False
      | Some x \<Rightarrow> list_ex (\<lambda>genre. sublist genre x) selected_genres)"

text \<open>\<^verbatim>\<open>Runtime_Minutes <= max_runtime\<close>: a comparison with NaN is False.\<close>

definition runtime_mask :: "int \<Rightarrow> movie \<Rightarrow> bool" where
  "runtime_mask max_runtime m =
     (case Runtime_Minutes m of None \<Rightarrow> False | Some n \<Rightarrow> n \<le> max_runtime)"

text \<open>
  \<^verbatim>\<open>if max_runtime:\<close> tests the truth value of \<^verbatim>\<open>max_runtime\<close>: both
  \<^verbatim>\<open>None\<close> and \<^verbatim>\<open>0\<close> are false and skip the runtime filter.
\<close>

definition filter_movies ::
  "movie list \<Rightarrow> string list \<Rightarrow> int option \<Rightarrow> int list \<Rightarrow> movie list" where
  "filter_movies df selected_genres max_runtime selected_decades =
     (let filtered1 = (if selected_genres \<noteq> [] then filter (genre_mask selected_genres) df else df);
          filtered2 = (case max_runtime of
                         None \<Rightarrow> filtered1
                       | Some n \<Rightarrow> if n \<noteq> 0 then filter (runtime_mask n) filtered1 else filtered1);
          filtered3 = (if selected_decades \<noteq> []
                       then filter (\<lambda>m. Decade m \<in> set selected_decades) filtered2
                       else filtered2)
      in filtered3)"


subsection \<open>\<^verbatim>\<open>main\<close>: the widgets\<close>

text \<open>
  The runtime radio buttons and the slider (\<^verbatim>\<open>min_value=60, max_value=300, step=10\<close>)
  decide the \<^verbatim>\<open>max_runtime\<close> that \<^verbatim>\<open>main\<close> hands to \<^verbatim>\<open>filter_movies\<close>.
\<close>

datatype runtime_option = Any_length | Under_2_hours | Custom_max_runtime

definition slider_values :: "int list" where
  "slider_values = map (\<lambda>k. 60 + 10 * int k) [0..<25]"

definition max_runtime_of :: "runtime_option \<Rightarrow> int \<Rightarrow> int option" where
  "max_runtime_of runtime_option slider =
     (case runtime_option of
        Under_2_hours \<Rightarrow> Some 120
      | Custom_max_runtime \<Rightarrow> Some slider
      | Any_length \<Rightarrow> None)"

text \<open>The choices of the \<^verbatim>\<open>Movies to display\<close> select box: a number or \<^verbatim>\<open>"All"\<close>.\<close>

datatype display_count = Count int | All


subsection \<open>\<^verbatim>\<open>main\<close>: ranking, paging and the summary\<close>

text \<open>
  \<^verbatim>\<open>DataFrame.head(n)\<close> is \<^verbatim>\<open>iloc[:n]\<close>: the first \<open>n\<close> rows, and for a negative
  \<open>n\<close> all rows but the last \<open>-n\<close>. It raises for no \<open>n\<close>.
\<close>

definition head :: "int \<Rightarrow> 'a list \<Rightarrow> 'a list" where
  "head n df = (if 0 \<le> n then take (nat n) df else take (length df - nat (- n)) df)"

definition display_df :: "display_count \<Rightarrow> movie list \<Rightarrow> movie list" where
  "display_df display_count filtered_df =
     (case display_count of
        Count n \<Rightarrow> head n filtered_df
      | All \<Rightarrow> filtered_df)"

text \<open>
  \<^verbatim>\<open>Series.mode()\<close>: the values that occur most often, in ascending order;
  \<^verbatim>\<open>.iloc[0]\<close> takes the smallest, and an empty mode shows \<^verbatim>\<open>"N/A"\<close>.
\<close>

definition series_mode :: "int list \<Rightarrow> int list" where
  "series_mode col =
     (if col = [] then []
      else sort (remdups (filter (\<lambda>v. count_list col v = Max (set (map (count_list col) col))) col)))"

text \<open>
  The summary section, without its two averages: they are float64 results of
  \<^verbatim>\<open>Series.mean()\<close> and have no counterpart here.
\<close>

record summary =
  most_common_decade :: "int option"
  total_movies :: nat

text \<open>The block under \<^verbatim>\<open>if len(filtered_df) > 0:\<close> at the end of \<^verbatim>\<open>main\<close>.\<close>

definition summary_statistics :: "movie list \<Rightarrow> summary option" where
  "summary_statistics filtered_df =
     (if length filtered_df > 0
      then Some \<lparr>most_common_decade = (case series_mode (map Decade filtered_df) of
                                         [] \<Rightarrow> None
                                       | d # _ \<Rightarrow> Some d),
                 total_movies = length filtered_df\<rparr>
      else None)"

text \<open>
  What \<^verbatim>\<open>main\<close> puts on the page: the number in the header, whether the
  \<^verbatim>\<open>No movies match\<close> warning is shown, the rows listed, and the summary section
  (\<open>None\<close> when the section is not rendered).
\<close>

record page =
  found :: nat
  warning :: bool
  displayed :: "movie list"
  statistics :: "summary option"

text \<open>
  \<^verbatim>\<open>main\<close> from the header on. With no match it warns and returns. Otherwise
  \<^verbatim>\<open>filtered_df\<close> is rebound to
  \<^verbatim>\<open>filtered_df.sort_values('IMDB_Rating', ascending=False)\<close>, which is both paged and
  summarised. The pandas routine is not part of the program: it is the parameter
  \<open>sort_values\<close>, and the call hands it the column and the direction.
\<close>

definition rank_and_page ::
  "((movie \<Rightarrow> rat) \<Rightarrow> bool \<Rightarrow> movie list \<Rightarrow> movie list) \<Rightarrow> movie list \<Rightarrow> display_count
     \<Rightarrow> page" where
  "rank_and_page sort_values filtered_df display_count =
     (if length filtered_df = 0
      then \<lparr>found = 0, warning = True, displayed = [], statistics = None\<rparr>
      else (let sorted_df = sort_values Rating False filtered_df
            in \<lparr>found = length filtered_df, warning = False,
                displayed = display_df display_count sorted_df,
                statistics = summary_statistics sorted_df\<rparr>))"



subsection \<open>The specification's reading of genres\<close>

text \<open>
  The record's \<open>genres\<close> of the specification: the raw field split at commas, trimmed,
  empty tokens dropped; a record passes when this set meets the selected genres.
\<close>

definition spec_genres :: "movie \<Rightarrow> string set" where
  "spec_genres m = (case Genre_Text m of None \<Rightarrow> {} | Some s \<Rightarrow> set (genres_of s) - {[]})"

definition spec_genre_match :: "string list \<Rightarrow> movie \<Rightarrow> bool" where
  "spec_genre_match criteria_genres m = (spec_genres m \<inter> set criteria_genres \<noteq> {})"

subsection \<open>Sample rows\<close>


definition whiplash_row :: raw_row where
  "whiplash_row = \<lparr>Series_Title = ''Whiplash'', Released_Year = 2014,
     Runtime = Some ''106 min'', Genre = Some ''Drama, Music'', IMDB_Rating = 85 / 10\<rparr>"

definition west_side_row :: raw_row where
  "west_side_row = \<lparr>Series_Title = ''West Side Story'', Released_Year = 1961,
     Runtime = Some ''153 min'', Genre = Some ''Crime, Drama, Musical'', IMDB_Rating = 76 / 10\<rparr>"

definition dark_knight_row :: raw_row where
  "dark_knight_row = \<lparr>Series_Title = ''The Dark Knight'', Released_Year = 2008,
     Runtime = Some ''152 min'', Genre = Some ''Action, Crime, Drama'', IMDB_Rating = 9\<rparr>"

definition no_runtime_row :: raw_row where
  "no_runtime_row = \<lparr>Series_Title = ''Untimed'', Released_Year = 1999,
     Runtime = Some ''N/A min'', Genre = Some ''Drama'', IMDB_Rating = 8\<rparr>"

definition whiplash :: movie where
  "whiplash = with_derived whiplash_row 106"

definition west_side :: movie where
  "west_side = with_derived west_side_row 153"

definition dark_knight :: movie where
  "dark_knight = with_derived dark_knight_row 152"

section \<open>Properties\<close>

lemmas row_defs = whiplash_row_def west_side_row_def dark_knight_row_def no_runtime_row_def

lemmas parse_defs = runtime_minutes_of_def str_extract_digits_def astype_int_def is_digit_def
  int_of_digits_def digit_val_def

lemmas movie_defs = whiplash_def west_side_def dark_knight_def with_derived_def decade_of_def
  row_defs

lemmas mask_defs = genre_mask_def runtime_mask_def

subsection \<open>Loading\<close>


lemma those_eq_None: "those xs = None \<longleftrightarrow> None \<in> set xs"
  by (induction xs) (auto split: option.splits)

lemma load_data_None_iff:
  "load_data (Some rows) = None \<longleftrightarrow> (\<exists>r \<in> set rows. runtime_minutes_of r = None)"
proof -
  have "load_data (Some rows) = None \<longleftrightarrow> those (map runtime_minutes_of rows) = None"
    by (simp add: load_data_def split: option.splits)
  also have "\<dots> \<longleftrightarrow> None \<in> runtime_minutes_of ` set rows"
    by (simp add: those_eq_None)
  also have "\<dots> \<longleftrightarrow> (\<exists>r \<in> set rows. runtime_minutes_of r = None)"
    by (metis (mono_tags) image_iff)
  finally show ?thesis .
qed


lemma no_digits_no_minutes:
  "str_extract_digits (Runtime r) = None \<Longrightarrow> runtime_minutes_of r = None"
  by (simp add: runtime_minutes_of_def astype_int_def)


text \<open>
  C2, as the code has it. A row whose runtime text holds no digit makes \<open>load_data\<close>
  fail as a whole: it returns \<^verbatim>\<open>None, None\<close>, and no catalog with a null runtime.
\<close>

theorem load_data_fails_on_unparsable_runtime:
  assumes "r \<in> set rows" and "str_extract_digits (Runtime r) = None"
  shows "load_data (Some rows) = None"
  using assms no_digits_no_minutes load_data_None_iff by blast

theorem load_data_fails_on_unparsable_runtime_witness:
  "no_runtime_row \<in> set [no_runtime_row, west_side_row]
   \<and> str_extract_digits (Runtime no_runtime_row) = None
   \<and> load_data (Some [no_runtime_row, west_side_row]) = None"
proof -
  have h1: "no_runtime_row \<in> set [no_runtime_row, west_side_row]" by simp
  have h2: "str_extract_digits (Runtime no_runtime_row) = None"
    by (simp add: row_defs parse_defs)
  show ?thesis using load_data_fails_on_unparsable_runtime [OF h1 h2] h1 h2 by simp
qed

text \<open>
  C2 as stated fails: with one good row and one row \<^verbatim>\<open>"N/A min"\<close> the load does not
  succeed.
\<close>

theorem load_data_unparsable_counterexample:
  "str_extract_digits (Runtime no_runtime_row) = None
   \<and> load_data (Some [whiplash_row, no_runtime_row]) = None"
  by (simp add: load_data_def row_defs parse_defs)



subsection \<open>Filtering\<close>

lemma filter_movies_as_filter:
  "filter_movies df gs mr ds =
     filter (\<lambda>m. (gs = [] \<or> genre_mask gs m)
               \<and> (case mr of None \<Rightarrow> True | Some n \<Rightarrow> n = 0 \<or> runtime_mask n m)
               \<and> (ds = [] \<or> Decade m \<in> set ds)) df"
  by (cases mr) (auto simp: filter_movies_def Let_def intro: filter_cong)

lemma length_filter_mono:
  "(\<And>x. x \<in> set xs \<Longrightarrow> P x \<Longrightarrow> Q x) \<Longrightarrow> length (filter P xs) \<le> length (filter Q xs)"
  by (induction xs) auto

lemma genre_mask_mono:
  "set gs \<subseteq> set gs' \<Longrightarrow> genre_mask gs m \<Longrightarrow> genre_mask gs' m"
  by (auto simp: genre_mask_def list_ex_iff split: option.splits)

lemma runtime_mask_mono:
  "n' \<le> n \<Longrightarrow> runtime_mask n' m \<Longrightarrow> runtime_mask n m"
  by (auto simp: runtime_mask_def split: option.splits)

text \<open>
  C9. The rows \<open>filter_movies\<close> returns are a subsequence of the catalog: rows are
  dropped, and the rows that stay keep their order and are not repeated.
\<close>

theorem filter_movies_subseq:
  "subseq (filter_movies df selected_genres max_runtime selected_decades) df"
  unfolding filter_movies_as_filter by (rule subseq_filter_left)

lemma split_comma_nonempty: "split_comma s \<noteq> []"
  by (induction s) (auto split: list.splits)

lemma split_comma_hd_prefix: "split_comma s = u # us \<Longrightarrow> prefix u s"
proof (induction s arbitrary: u us)
  case Nil
  then show ?case by simp
next
  case (Cons c cs)
  then show ?case by (auto split: if_splits list.splits)
qed

lemma split_comma_sublist: "t \<in> set (split_comma s) \<Longrightarrow> sublist t s"
proof (induction s arbitrary: t)
  case Nil
  then show ?case by simp
next
  case (Cons c cs)
  show ?case
  proof (cases "c = CHR '',''")
    case True
    with Cons.prems have "t = [] \<or> t \<in> set (split_comma cs)" by auto
    then show ?thesis using Cons.IH by (auto simp: sublist_Cons_right)
  next
    case False
    obtain u us where u: "split_comma cs = u # us"
      using split_comma_nonempty by (cases "split_comma cs") auto
    with False Cons.prems have "t = c # u \<or> t \<in> set us" by auto
    then show ?thesis
    proof
      assume t: "t = c # u"
      have "prefix u cs" using u by (rule split_comma_hd_prefix)
      then show ?thesis using t by (simp add: sublist_Cons_right)
    next
      assume "t \<in> set us"
      then have "sublist t cs" using Cons.IH u by simp
      then show ?thesis by (simp add: sublist_Cons_right)
    qed
  qed
qed

lemma strip_sublist: "sublist (strip t) t"
proof -
  let ?d = "dropWhile is_space t"
  have "suffix (dropWhile is_space (rev ?d)) (rev ?d)" by (rule suffix_dropWhile)
  then have "prefix (strip t) ?d" by (simp add: suffix_to_prefix strip_def)
  then have "sublist (strip t) ?d" by (rule prefix_imp_sublist)
  moreover have "sublist ?d t" by (rule suffix_imp_sublist) (rule suffix_dropWhile)
  ultimately show ?thesis by (rule sublist_order.order.trans)
qed

text \<open>
  One half of the genre claim holds: a record whose genre tokens meet the selection
  passes the code's substring test. The converse is what fails.
\<close>

lemma spec_genre_match_imp_genre_mask:
  assumes "spec_genre_match gs m"
  shows "genre_mask gs m"
proof -
  from assms obtain s g where s: "Genre_Text m = Some s" and g: "g \<in> set (genres_of s)" "g \<in> set gs"
    by (auto simp: spec_genre_match_def spec_genres_def split: option.splits)
  from g(1) obtain t where "t \<in> set (split_comma s)" "g = strip t"
    by (auto simp: genres_of_def)
  then have "sublist g s"
    using strip_sublist split_comma_sublist sublist_order.order.trans by blast
  with s g(2) show ?thesis by (auto simp: genre_mask_def list_ex_iff)
qed

text \<open>
  C1 at \<^verbatim>\<open>selected_genres = ["Music"]\<close>. The code tests whether a selected genre
  occurs inside the raw genre text, so it returns West Side Story, whose genres are
  Crime, Drama and Musical: none of them is Music.
\<close>

theorem filter_movies_genre_substring:
  "filter_movies [whiplash, west_side] [''Music''] None [] = [whiplash, west_side]
   \<and> spec_genres west_side = {''Crime'', ''Drama'', ''Musical''}
   \<and> \<not> spec_genre_match [''Music''] west_side"
  by (simp add: filter_movies_def mask_defs movie_defs spec_genre_match_def spec_genres_def
      genres_of_def strip_def is_space_def sublist_Cons_right)

lemma filter_movies_runtime_ceiling:
  assumes "n \<noteq> 0"
  shows "m \<in> set (filter_movies df gs (Some n) ds)
         \<longleftrightarrow> m \<in> set (filter_movies df gs None ds)
             \<and> (\<exists>k. Runtime_Minutes m = Some k \<and> k \<le> n)"
  using assms by (auto simp: filter_movies_as_filter runtime_mask_def split: option.splits)

text \<open>
  The ceilings \<^verbatim>\<open>main\<close> passes: none, 120, or a slider value from 60 to 300. None of
  them is 0, the one ceiling that \<^verbatim>\<open>if max_runtime:\<close> takes for no ceiling.
\<close>

lemma slider_values_range: "v \<in> set slider_values \<Longrightarrow> 60 \<le> v \<and> v \<le> 300"
  by (auto simp: slider_values_def)

lemma max_runtime_of_nonzero:
  "slider \<in> set slider_values \<Longrightarrow> max_runtime_of runtime_option slider \<noteq> Some 0"
  by (cases runtime_option) (auto simp: max_runtime_of_def dest: slider_values_range)

text \<open>
  C8. For every ceiling other than 0, so for every ceiling \<^verbatim>\<open>main\<close> passes, a row is
  returned iff it passes the genre and the decade predicate and, when a ceiling is
  set, its runtime is present and at most the ceiling. A row whose runtime is null is
  therefore excluded under every set ceiling, however large, and with no ceiling the
  runtime plays no part.
\<close>

theorem filter_movies_runtime_predicate:
  assumes "max_runtime \<noteq> Some 0"
  shows "m \<in> set (filter_movies df gs max_runtime ds)
         \<longleftrightarrow> m \<in> set df
             \<and> (gs = [] \<or> genre_mask gs m)
             \<and> (ds = [] \<or> Decade m \<in> set ds)
             \<and> (case max_runtime of
                  None \<Rightarrow> True
                | Some n \<Rightarrow> (case Runtime_Minutes m of None \<Rightarrow> False | Some k \<Rightarrow> k \<le> n))"
  using assms
  by (cases max_runtime) (auto simp: filter_movies_as_filter runtime_mask_def split: option.splits)

theorem filter_movies_runtime_predicate_witness:
  "max_runtime_of Under_2_hours 120 = Some 120
   \<and> Some (120 :: int) \<noteq> Some 0
   \<and> whiplash \<in> set (filter_movies [whiplash, west_side] [] (Some 120) [])
   \<and> west_side \<notin> set (filter_movies [whiplash, west_side] [] (Some 120) [])
   \<and> west_side \<in> set (filter_movies [whiplash, west_side] [] None [])"
proof -
  have h: "Some (120 :: int) \<noteq> Some 0" and h': "(None :: int option) \<noteq> Some 0" by simp_all
  have d: "whiplash \<noteq> west_side" by (simp add: movie_defs)
  show ?thesis
    using filter_movies_runtime_predicate [OF h, of whiplash "[whiplash, west_side]" "[]" "[]"]
      filter_movies_runtime_predicate [OF h, of west_side "[whiplash, west_side]" "[]" "[]"]
      filter_movies_runtime_predicate [OF h', of west_side "[whiplash, west_side]" "[]" "[]"]
      d
    by (simp add: max_runtime_of_def movie_defs)
qed

text \<open>
  C7, as the code has it. Widening a non-empty genre selection or a non-empty decade
  selection never shrinks the result, and lowering the ceiling to a value other
  than 0 never grows it.
\<close>

theorem filter_movies_monotone:
  "(gs \<noteq> [] \<and> set gs \<subseteq> set gs'
      \<longrightarrow> length (filter_movies df gs mr ds) \<le> length (filter_movies df gs' mr ds))
   \<and> (ds \<noteq> [] \<and> set ds \<subseteq> set ds'
      \<longrightarrow> length (filter_movies df gs mr ds) \<le> length (filter_movies df gs mr ds'))
   \<and> (n' \<le> n \<and> n' \<noteq> 0
      \<longrightarrow> length (filter_movies df gs (Some n') ds) \<le> length (filter_movies df gs (Some n) ds))"
proof (intro conjI impI)
  assume "gs \<noteq> [] \<and> set gs \<subseteq> set gs'"
  then have "gs \<noteq> []" "gs' \<noteq> []" "set gs \<subseteq> set gs'" by auto
  then show "length (filter_movies df gs mr ds) \<le> length (filter_movies df gs' mr ds)"
    unfolding filter_movies_as_filter
    by (intro length_filter_mono) (auto dest: genre_mask_mono)
next
  assume "ds \<noteq> [] \<and> set ds \<subseteq> set ds'"
  then have "ds \<noteq> []" "ds' \<noteq> []" "set ds \<subseteq> set ds'" by auto
  then show "length (filter_movies df gs mr ds) \<le> length (filter_movies df gs mr ds')"
    unfolding filter_movies_as_filter
    by (intro length_filter_mono) auto
next
  assume "n' \<le> n \<and> n' \<noteq> 0"
  then show "length (filter_movies df gs (Some n') ds) \<le> length (filter_movies df gs (Some n) ds)"
    unfolding filter_movies_as_filter
    by (intro length_filter_mono) (auto dest: runtime_mask_mono)
qed

theorem filter_movies_monotone_witness:
  "([''Music''] \<noteq> [] \<and> set [''Music''] \<subseteq> set [''Crime'', ''Music'']
      \<and> length (filter_movies [whiplash, dark_knight] [''Music''] None [2010])
          \<le> length (filter_movies [whiplash, dark_knight] [''Crime'', ''Music''] None [2010]))
   \<and> ([2010 :: int] \<noteq> [] \<and> set [2010 :: int] \<subseteq> set [2000, 2010]
      \<and> length (filter_movies [whiplash, dark_knight] [''Music''] None [2010])
          \<le> length (filter_movies [whiplash, dark_knight] [''Music''] None [2000, 2010]))
   \<and> ((120 :: int) \<le> 160 \<and> (120 :: int) \<noteq> 0
      \<and> length (filter_movies [whiplash, dark_knight] [''Music''] (Some 120) [2010])
          \<le> length (filter_movies [whiplash, dark_knight] [''Music''] (Some 160) [2010]))"
  using filter_movies_monotone [of "[''Music'']" "[''Crime'', ''Music'']" "[whiplash, dark_knight]"
      None "[2010]" "[2000, 2010]" 120 160]
  by simp

text \<open>
  C7 as stated fails where the selection was empty: with no genre selected both rows
  are returned, and selecting Music leaves one.
\<close>

theorem filter_movies_monotone_counterexample:
  "\<not> length (filter_movies [whiplash, dark_knight] [] None [])
       \<le> length (filter_movies [whiplash, dark_knight] [''Music''] None [])"
  by (simp add: filter_movies_def mask_defs movie_defs sublist_Cons_right)

subsection \<open>Paging\<close>




text \<open>
  The summary section is made from the sorted frame before it is cut to the page, so
  the display count has no part in it.
\<close>

lemma summary_ignores_display_count:
  "statistics (rank_and_page sort_values filtered_df display_count)
     = statistics (rank_and_page sort_values filtered_df display_count')"
  by (simp add: rank_and_page_def Let_def)

subsection \<open>No match\<close>






end
